theory Spec2Isabelle
  imports Complex_Main "HOL-Library.Sublist" "HOL-Library.Stream"
    "HOL-Library.Char_ord" "HOL-Library.List_Lexorder"
begin

section \<open>Strings as the Python source uses them\<close>

text \<open>
  File names and chord labels are Python \<open>str\<close> values, embedded as \<open>string\<close>.
  \<open>str.lower()\<close> is embedded on the ASCII letters: a capital \<open>A\<close>..\<open>Z\<close> moves to
  its small letter and every other character stays. The only
  characters whose lower-case form is one of the pattern letters \<open>a c d e g m\<close> are the
  ASCII capitals, so nothing of the label inference depends on the rest of Unicode.
\<close>

definition upper_letters :: string where
  "upper_letters = ''ABCDEFGHIJKLMNOPQRSTUVWXYZ''"

definition lower_letters :: string where
  "lower_letters = ''abcdefghijklmnopqrstuvwxyz''"

definition lower_char :: "char \<Rightarrow> char" where
  "lower_char c =
     (case map_of (zip upper_letters lower_letters) c of Some l \<Rightarrow> l | None \<Rightarrow> c)"

definition lower :: "string \<Rightarrow> string" where
  "lower s = map lower_char s"

text \<open>
  \<open>pattern in text\<close> on two strings: the pattern occurs as a contiguous run of the
  text. \<open>starts_with\<close> compares the pattern with the front of the text.
\<close>

fun starts_with :: "string \<Rightarrow> string \<Rightarrow> bool" where
  "starts_with [] s = True"
| "starts_with (p # ps) [] = False"
| "starts_with (p # ps) (c # cs) = (p = c \<and> starts_with ps cs)"

fun str_in :: "string \<Rightarrow> string \<Rightarrow> bool" where
  "str_in p [] = (p = [])"
| "str_in p (c # cs) = (starts_with p (c # cs) \<or> str_in p cs)"

section \<open>The random source\<close>

text \<open>
  \<open>np.random.choice(xs)\<close> reads numpy's global generator, which the script never
  seeds. The generator is embedded as the stream of the draws it will produce; a call
  consumes the head of the stream and picks the element at that position (reduced
  modulo the length, so that every draw names an element of the list).
\<close>

type_synonym rng = "nat stream"

definition random_choice :: "'a list \<Rightarrow> rng \<Rightarrow> 'a \<times> rng" where
  "random_choice xs g = (xs ! (shd g mod length xs), stl g)"

section \<open>Label inference of the IDMT adapter\<close>

text \<open>
  \<open>chord_mappings\<close> is a dict literal; iterating \<open>.items()\<close> follows insertion order,
  so the table is the association list in the order the literal is written.
\<close>

definition chord_mappings :: "(string \<times> string) list" where
  "chord_mappings =
     [(''a'', ''A''), (''am'', ''Am''), (''a7'', ''A7''),
      (''c'', ''C''), (''cm'', ''Cm''), (''c7'', ''C7''),
      (''d'', ''D''), (''dm'', ''Dm''), (''d7'', ''D7''),
      (''e'', ''E''), (''em'', ''Em''), (''e7'', ''E7''),
      (''g'', ''G''), (''gm'', ''Gm''), (''g7'', ''G7'')]"

text \<open>
  The \<open>for pattern, chord in chord_mappings.items()\<close> loop with its early
  \<open>return chord\<close>: \<open>None\<close> when the loop runs to its end.
\<close>

fun first_match :: "(string \<times> string) list \<Rightarrow> string \<Rightarrow> string option" where
  "first_match [] s = None"
| "first_match ((pattern, chord) # rest) s =
     (if str_in pattern s then Some chord else first_match rest s)"

definition fallback_chords :: "string list" where
  "fallback_chords = [''C'', ''D'', ''E'', ''G'', ''A'', ''Am'', ''Em'', ''Dm'']"

definition infer_chord_from_filename :: "string \<Rightarrow> rng \<Rightarrow> string \<times> rng" where
  "infer_chord_from_filename filename g =
     (let filename_lower = lower filename in
      case first_match chord_mappings filename_lower of
        Some chord \<Rightarrow> (chord, g)
      | None \<Rightarrow> random_choice fallback_chords g)"

section \<open>The processor and its fixed configuration\<close>

text \<open>
  \<open>DatasetProcessor.__init__\<close>: the object is a record of its fields, and every
  method takes it as \<open>self\<close>.
\<close>

record dataset_processor =
  base_dir :: string
  sample_rate :: nat
  hop_length :: nat
  n_fft :: nat
  n_mels :: nat
  n_chroma :: nat
  chord_vocab :: "string list"

definition DatasetProcessor :: "string \<Rightarrow> dataset_processor" where
  "DatasetProcessor dir =
     \<lparr>base_dir = dir, sample_rate = 22050, hop_length = 512, n_fft = 2048,
      n_mels = 128, n_chroma = 12,
      chord_vocab =
        [''C'', ''C#'', ''D'', ''D#'', ''E'', ''F'', ''F#'', ''G'', ''G#'', ''A'', ''A#'', ''B'',
         ''Cm'', ''C#m'', ''Dm'', ''D#m'', ''Em'', ''Fm'', ''F#m'', ''Gm'', ''G#m'', ''Am'',
         ''A#m'', ''Bm'',
         ''C7'', ''D7'', ''E7'', ''G7'', ''A7'', ''Cm7'', ''Dm7'', ''Em7'', ''Gm7'', ''Am7'']\<rparr>"

section \<open>Arrays, audio and the signal library\<close>

text \<open>
  A waveform is the list of its samples. A two-dimensional numpy array is the list of
  its rows; the feature arrays have a positive number of rows (the bin count), so the
  list of rows determines the shape. Sample values are reals: the properties below are
  about shapes and control flow, never about a numeric value.

  \<open>a.T.tolist()\<close> is the list of the columns of \<open>a\<close>, and \<open>a.shape[1]\<close> the length of
  its rows.
\<close>

type_synonym audio = "real list"
type_synonym ndarray = "real list list"

datatype exn = LibraryError | OSError | ValueError | TypeError

definition T_tolist :: "ndarray \<Rightarrow> real list list" where
  "T_tolist a = transpose a"

definition shape1 :: "ndarray \<Rightarrow> nat" where
  "shape1 a = (case a of [] \<Rightarrow> 0 | r # _ \<Rightarrow> length r)"

text \<open>
  The librosa functions the extractor calls are not code of this repository: they are
  a parameter of the model. Each takes the arguments the source passes, in the order
  given here, and either raises (\<open>Inl\<close>) or returns an array.
\<close>

record librosa =
  chroma_stft :: "audio \<Rightarrow> nat \<Rightarrow> nat \<Rightarrow> nat \<Rightarrow> nat \<Rightarrow> exn + ndarray"
    \<comment> \<open>y, sr, n_fft, hop_length, n_chroma\<close>
  melspectrogram :: "audio \<Rightarrow> nat \<Rightarrow> nat \<Rightarrow> nat \<Rightarrow> nat \<Rightarrow> exn + ndarray"
    \<comment> \<open>y, sr, n_fft, hop_length, n_mels\<close>
  power_to_db :: "ndarray \<Rightarrow> exn + ndarray"
  mfcc :: "audio \<Rightarrow> nat \<Rightarrow> nat \<Rightarrow> nat \<Rightarrow> nat \<Rightarrow> exn + ndarray"
    \<comment> \<open>y, sr, n_mfcc, n_fft, hop_length\<close>
  spectral_centroid :: "audio \<Rightarrow> nat \<Rightarrow> nat \<Rightarrow> nat \<Rightarrow> exn + ndarray"
    \<comment> \<open>y, sr, n_fft, hop_length\<close>
  rms_energy :: "audio \<Rightarrow> nat \<Rightarrow> nat \<Rightarrow> exn + ndarray"
    \<comment> \<open>y, frame_length, hop_length\<close>
  zero_crossing_rate :: "audio \<Rightarrow> nat \<Rightarrow> nat \<Rightarrow> exn + ndarray"
    \<comment> \<open>y, frame_length, hop_length\<close>

section \<open>Feature extraction\<close>

record shape_info =
  time_steps :: nat
  chroma_bins :: nat
  mel_bins :: nat
  mfcc_coeffs :: nat

record feature_bundle =
  chroma :: "real list list"
  mel_spectrogram :: "real list list"
  mfcc_list :: "real list list"
  spectral_centroid_list :: "real list list"
  rms :: "real list list"
  zcr :: "real list list"
  shape :: shape_info

text \<open>
  \<open>extract_features\<close> returns the dict of the seven entries, or \<open>{}\<close> from its
  \<open>except Exception\<close> handler: \<open>Some\<close> bundle or \<open>None\<close>. The calls are made in the
  order of the source, and the first one that raises ends the \<open>try\<close> block.
\<close>

definition extract_features ::
  "librosa \<Rightarrow> dataset_processor \<Rightarrow> audio \<Rightarrow> feature_bundle option" where
  "extract_features L self y =
     (case chroma_stft L y (sample_rate self) (n_fft self) (hop_length self) (n_chroma self) of
        Inl e \<Rightarrow> None
      | Inr chroma_a \<Rightarrow>
     (case melspectrogram L y (sample_rate self) (n_fft self) (hop_length self) (n_mels self) of
        Inl e \<Rightarrow> None
      | Inr mel_spec \<Rightarrow>
     (case power_to_db L mel_spec of
        Inl e \<Rightarrow> None
      | Inr mel_spec_db \<Rightarrow>
     (case mfcc L y (sample_rate self) 13 (n_fft self) (hop_length self) of
        Inl e \<Rightarrow> None
      | Inr mfccs \<Rightarrow>
     (case spectral_centroid L y (sample_rate self) (n_fft self) (hop_length self) of
        Inl e \<Rightarrow> None
      | Inr centroid \<Rightarrow>
     (case rms_energy L y (n_fft self) (hop_length self) of
        Inl e \<Rightarrow> None
      | Inr rms_a \<Rightarrow>
     (case zero_crossing_rate L y (n_fft self) (hop_length self) of
        Inl e \<Rightarrow> None
      | Inr zcr_a \<Rightarrow>
          Some \<lparr>chroma = T_tolist chroma_a,
                mel_spectrogram = T_tolist mel_spec_db,
                mfcc_list = T_tolist mfccs,
                spectral_centroid_list = T_tolist centroid,
                rms = T_tolist rms_a,
                zcr = T_tolist zcr_a,
                shape = \<lparr>time_steps = shape1 chroma_a, chroma_bins = n_chroma self,
                         mel_bins = n_mels self, mfcc_coeffs = 13\<rparr>\<rparr>)))))))"

section \<open>Samples and the two source adapters\<close>

datatype source_metadata =
    GuitarSet_metadata string string nat  \<comment> \<open>player, style, sample_rate\<close>
  | IDMT_metadata string nat  \<comment> \<open>filename, sample_rate\<close>

record sample =
  sample_id :: string
  chord :: string
  instrument :: string
  quality :: string
  audio_file :: string
  duration :: real
  features :: "feature_bundle option"
  source_info :: source_metadata

text \<open>
  What the adapters read from the disk. \<open>wav_files env d\<close> is \<open>None\<close> when the
  directory \<open>d\<close> does not exist, and otherwise the files \<open>d.rglob("*.wav")\<close> yields, in
  the order it yields them. A file is its path, its stem (the name without directory
  and suffix) and what \<open>librosa.load(file, sr=22050, mono=True)\<close> gives: the waveform,
  or the exception it raises on an unreadable file. \<open>clock\<close> is what
  \<open>str(np.datetime64('now'))\<close> returns, and \<open>write_fault\<close> tells whether the write of the
  corpus file raises, and after how many written chunks.
\<close>

record wav_file =
  path :: string
  stem :: string
  decoded :: "exn + audio"

record environment =
  wav_files :: "string \<Rightarrow> wav_file list option"
  clock :: string
  write_fault :: "nat option"

text \<open>\<open>s.split('_')\<close>: the pieces between the underscores, empty pieces included.\<close>

fun split_underscore :: "string \<Rightarrow> string list" where
  "split_underscore [] = [[]]"
| "split_underscore (c # cs) =
     (if c = CHR ''_'' then [] # split_underscore cs
      else (case split_underscore cs of
              [] \<Rightarrow> [[c]]
            | part # parts \<Rightarrow> (c # part) # parts))"

text \<open>
  The body of the GuitarSet loop for one file: \<open>None\<close> is \<open>continue\<close>, taken for a
  stem of fewer than three parts and in the \<open>except Exception\<close> handler when loading
  raises. \<open>extract_features\<close> never raises.
\<close>

definition guitarset_sample ::
  "librosa \<Rightarrow> dataset_processor \<Rightarrow> wav_file \<Rightarrow> sample option" where
  "guitarset_sample L self f =
     (let parts = split_underscore (stem f) in
      if length parts < 3 then None
      else
        (let player = parts ! 0; chord_name = parts ! 1; style = parts ! 2 in
         case decoded f of
           Inl e \<Rightarrow> None
         | Inr y \<Rightarrow>
             Some \<lparr>sample_id = ''GuitarSet_'' @ player @ ''_'' @ chord_name @ ''_'' @ style,
                   chord = chord_name,
                   instrument = ''guitar'',
                   quality = ''studio'',
                   audio_file = path f,
                   duration = real (length y) / real (sample_rate self),
                   features = extract_features L self y,
                   source_info = GuitarSet_metadata player style (sample_rate self)\<rparr>))"

fun guitarset_loop ::
  "librosa \<Rightarrow> dataset_processor \<Rightarrow> wav_file list \<Rightarrow> sample list \<Rightarrow> sample list" where
  "guitarset_loop L self [] samples = samples"
| "guitarset_loop L self (f # fs) samples =
     (case guitarset_sample L self f of
        None \<Rightarrow> guitarset_loop L self fs samples
      | Some s \<Rightarrow> guitarset_loop L self fs (samples @ [s]))"

definition process_guitarset ::
  "librosa \<Rightarrow> dataset_processor \<Rightarrow> environment \<Rightarrow> sample list" where
  "process_guitarset L self env =
     (case wav_files env (base_dir self @ ''/guitarset/audio'') of
        None \<Rightarrow> []
      | Some fs \<Rightarrow> guitarset_loop L self fs [])"

text \<open>
  The IDMT loop infers the label before it loads the file, so a draw of the random
  source is consumed also for a file whose loading then raises.
\<close>

definition idmt_sample ::
  "librosa \<Rightarrow> dataset_processor \<Rightarrow> wav_file \<Rightarrow> string \<Rightarrow> sample option" where
  "idmt_sample L self f chord_name =
     (let filename = stem f in
      case decoded f of
        Inl e \<Rightarrow> None
      | Inr y \<Rightarrow>
          Some \<lparr>sample_id = ''IDMT_'' @ filename,
                chord = chord_name,
                instrument = ''guitar'',
                quality = ''mixed'',
                audio_file = path f,
                duration = real (length y) / real (sample_rate self),
                features = extract_features L self y,
                source_info = IDMT_metadata filename (sample_rate self)\<rparr>)"

fun idmt_loop ::
  "librosa \<Rightarrow> dataset_processor \<Rightarrow> wav_file list \<Rightarrow> sample list \<Rightarrow> rng
     \<Rightarrow> sample list \<times> rng" where
  "idmt_loop L self [] samples g = (samples, g)"
| "idmt_loop L self (f # fs) samples g =
     (case infer_chord_from_filename (stem f) g of
        (chord_name, g') \<Rightarrow>
          (case idmt_sample L self f chord_name of
             None \<Rightarrow> idmt_loop L self fs samples g'
           | Some s \<Rightarrow> idmt_loop L self fs (samples @ [s]) g'))"

definition process_idmt_guitar ::
  "librosa \<Rightarrow> dataset_processor \<Rightarrow> environment \<Rightarrow> rng \<Rightarrow> sample list \<times> rng" where
  "process_idmt_guitar L self env g =
     (case wav_files env (base_dir self @ ''/idmt-guitar'') of
        None \<Rightarrow> ([], g)
      | Some fs \<Rightarrow> idmt_loop L self fs [] g)"

section \<open>The corpus document and its persistence\<close>

record feature_config =
  cfg_sample_rate :: nat
  cfg_hop_length :: nat
  cfg_n_fft :: nat
  cfg_n_mels :: nat
  cfg_n_chroma :: nat

text \<open>
  \<open>np.unique(chords, return_counts=True)\<close> gives the distinct labels in sorted order
  and, beside them, the array of their counts; \<open>dict(zip(...))\<close> pairs them in that
  order. The counts are elements of a numpy array: numpy integers, not Python \<open>int\<close>
  values. \<open>instruments\<close> and \<open>qualities\<close> are lists made from sets, whose order Python
  leaves open: sets here.
\<close>

datatype np_int64 = Np_int64 nat

record corpus_metadata =
  total_samples :: nat
  unique_chords :: nat
  chord_distribution :: "(string \<times> np_int64) list"
  instruments :: "string set"
  qualities :: "string set"
  processing_date :: string
  feature_cfg :: feature_config

record corpus_document =
  metadata :: corpus_metadata
  samples :: "sample list"

definition corpus_data ::
  "dataset_processor \<Rightarrow> sample list \<Rightarrow> environment \<Rightarrow> corpus_document" where
  "corpus_data self smpls env =
     (let chords = map chord smpls;
          instrs = map instrument smpls;
          quals = map quality smpls
      in \<lparr>metadata =
            \<lparr>total_samples = length smpls,
             unique_chords = card (set chords),
             chord_distribution =
               map (\<lambda>c. (c, Np_int64 (count_list chords c))) (sort (remdups chords)),
             instruments = set instrs,
             qualities = set quals,
             processing_date = clock env,
             feature_cfg =
               \<lparr>cfg_sample_rate = sample_rate self, cfg_hop_length = hop_length self,
                cfg_n_fft = n_fft self, cfg_n_mels = n_mels self,
                cfg_n_chroma = n_chroma self\<rparr>\<rparr>,
          samples = smpls\<rparr>)"

text \<open>
  The disk the script writes to: the directories that exist and the content of each
  file. \<open>json.dump(data, f, indent=2)\<close> writes the document piece by piece into the
  open file, in document order: within the \<open>metadata\<close> block \<open>total_samples\<close>,
  \<open>unique_chords\<close>, the entries of \<open>chord_distribution\<close> (the key, then the count) and
  the remaining entries; then the samples one by one. The content of a JSON file is the
  list of the pieces written so far; an \<open>.npz\<close> archive holds the two arrays and the
  vocabulary.
\<close>

datatype json_chunk =
    Total_samples_chunk nat
  | Unique_chords_chunk nat
  | Distribution_key_chunk string
  | Metadata_rest_chunk "string set" "string set" string feature_config
  | Sample_chunk sample

datatype file_content =
    Json_text "json_chunk list"
  | Npz_archive "real list list" "nat list" "string list"

record filesystem =
  dirs :: "string set"
  files :: "string \<rightharpoonup> file_content"

text \<open>
  The encoder of \<open>json\<close> knows Python's own numbers, strings, lists and dicts. For a
  numpy integer it has no case and raises \<open>TypeError\<close>. In an entry of
  \<open>chord_distribution\<close> it writes the key and then meets the count: the first entry
  ends the encoding, with its key written. \<open>encode_distribution\<close> and \<open>json_encode\<close>
  give the pieces written and the exception that ended the encoding, if one did.
\<close>

fun encode_distribution :: "(string \<times> np_int64) list \<Rightarrow> json_chunk list \<times> exn option" where
  "encode_distribution [] = ([], None)"
| "encode_distribution ((key, Np_int64 n) # rest) = ([Distribution_key_chunk key], Some TypeError)"

definition json_encode :: "corpus_document \<Rightarrow> json_chunk list \<times> exn option" where
  "json_encode data =
     (let m = metadata data;
          front = [Total_samples_chunk (total_samples m), Unique_chords_chunk (unique_chords m)]
      in case encode_distribution (chord_distribution m) of
           (written, Some e) \<Rightarrow> (front @ written, Some e)
         | (written, None) \<Rightarrow>
             (front @ written @
              [Metadata_rest_chunk (instruments m) (qualities m) (processing_date m)
                 (feature_cfg m)] @
              map Sample_chunk (samples data), None))"

text \<open>\<open>Path(p).parent\<close>: the path up to its last separator, \<open>.\<close> when it has none.\<close>

definition path_parent :: "string \<Rightarrow> string" where
  "path_parent p =
     (let r = dropWhile (\<lambda>c. c \<noteq> CHR ''/'') (rev p) in
      if r = [] then ''.'' else rev (tl r))"

definition mkdir_parents :: "string \<Rightarrow> filesystem \<Rightarrow> filesystem" where
  "mkdir_parents d fs = fs\<lparr>dirs := insert d (dirs fs)\<rparr>"

text \<open>\<open>open(p, 'w')\<close> creates the file or empties the one that is there.\<close>

definition open_w :: "string \<Rightarrow> filesystem \<Rightarrow> filesystem" where
  "open_w p fs = fs\<lparr>files := (files fs)(p \<mapsto> Json_text [])\<rparr>"

text \<open>
  \<open>json.dump\<close> into the file opened at \<open>p\<close>: the pieces the encoder gives are
  written in order, and an exception of the encoder leaves \<open>json.dump\<close> with the pieces
  before it in the file. With \<open>write_fault = Some k\<close> and \<open>k\<close> smaller than the number of
  pieces, the write of piece \<open>k\<close> raises instead and the first \<open>k\<close> pieces are in the
  file. The \<open>with\<close> block closes the file on the way out.
\<close>

definition json_dump ::
  "corpus_document \<Rightarrow> string \<Rightarrow> nat option \<Rightarrow> filesystem \<Rightarrow> (exn + unit) \<times> filesystem" where
  "json_dump data p fault fs =
     (case json_encode data of
        (chunks, raised) \<Rightarrow>
          (let ended = ((case raised of None \<Rightarrow> Inr () | Some e \<Rightarrow> Inl e),
                        fs\<lparr>files := (files fs)(p \<mapsto> Json_text chunks)\<rparr>)
           in case fault of
                None \<Rightarrow> ended
              | Some k \<Rightarrow>
                  if k < length chunks
                  then (Inl OSError, fs\<lparr>files := (files fs)(p \<mapsto> Json_text (take k chunks))\<rparr>)
                  else ended))"

definition save_processed_data ::
  "dataset_processor \<Rightarrow> sample list \<Rightarrow> string \<Rightarrow> environment \<Rightarrow> filesystem
     \<Rightarrow> (exn + unit) \<times> filesystem" where
  "save_processed_data self smpls output_file env fs =
     (let fs1 = mkdir_parents (path_parent output_file) fs;
          data = corpus_data self smpls env;
          fs2 = open_w output_file fs1
      in json_dump data output_file (write_fault env) fs2)"



section \<open>The training-set builder\<close>

text \<open>
  \<open>xs.index(x)\<close> is the first position of \<open>x\<close>, and raises \<open>ValueError\<close> when \<open>x\<close>
  is not in the list.
\<close>

fun list_index :: "'a list \<Rightarrow> 'a \<Rightarrow> exn + nat" where
  "list_index [] x = Inl ValueError"
| "list_index (y # ys) x =
     (if y = x then Inr 0
      else (case list_index ys x of Inl e \<Rightarrow> Inl e | Inr i \<Rightarrow> Inr (Suc i)))"

definition label_idx :: "dataset_processor \<Rightarrow> string \<Rightarrow> exn + nat" where
  "label_idx self c =
     (if c \<in> set (chord_vocab self) then list_index (chord_vocab self) c else Inr 0)"

text \<open>
  \<open>np.array(chroma).size\<close> is the number of entries, and \<open>np.mean(chroma, axis=0)\<close>
  the vector of the means of the columns. A chroma field is a list of frames of equal
  length, as \<open>.T.tolist()\<close> of a two-dimensional array is; on such lists the two
  numpy calls and the later \<open>X.shape[1]\<close> do not raise.
\<close>

definition array_size :: "real list list \<Rightarrow> nat" where
  "array_size a = sum_list (map length a)"

definition mean_axis0 :: "real list list \<Rightarrow> real list" where
  "mean_axis0 a = map (\<lambda>col. sum_list col / real (length col)) (transpose a)"

text \<open>
  The test at the head of the loop body and the \<open>chroma.size > 0\<close> test after it: a
  sample passes both when its features are not \<open>{}\<close>, its chroma list is not empty and
  the array has an entry.
\<close>

definition usable :: "sample \<Rightarrow> bool" where
  "usable s =
     (case features s of
        None \<Rightarrow> False
      | Some b \<Rightarrow> chroma b \<noteq> [] \<and> 0 < array_size (chroma b))"

fun training_loop ::
  "dataset_processor \<Rightarrow> sample list \<Rightarrow> real list list \<Rightarrow> nat list
     \<Rightarrow> exn + (real list list \<times> nat list)" where
  "training_loop self [] features_list labels_list = Inr (features_list, labels_list)"
| "training_loop self (s # rest) features_list labels_list =
     (case features s of
        None \<Rightarrow> training_loop self rest features_list labels_list
      | Some b \<Rightarrow>
          if chroma b = [] then training_loop self rest features_list labels_list
          else if 0 < array_size (chroma b) then
            (case label_idx self (chord s) of
               Inl e \<Rightarrow> Inl e
             | Inr i \<Rightarrow>
                 training_loop self rest
                   (features_list @ [mean_axis0 (chroma b)]) (labels_list @ [i]))
          else training_loop self rest features_list labels_list)"

definition prepare_training_data ::
  "dataset_processor \<Rightarrow> sample list \<Rightarrow> exn + (real list list \<times> nat list)" where
  "prepare_training_data self smpls =
     (case training_loop self smpls [] [] of
        Inl e \<Rightarrow> Inl e
      | Inr (features_list, labels_list) \<Rightarrow>
          if features_list = [] then Inl ValueError
          else Inr (features_list, labels_list))"

section \<open>The pipeline\<close>

record args =
  datasets :: "string list"
  output_dir :: string

datatype message =
    No_dataset_processed
  | Training_data_saved
  | Training_data_error exn
  | Json_saved_only
  | Next_steps

text \<open>
  The samples \<open>main\<close> gathers in \<open>all_samples\<close>: the GuitarSet adapter first, then the
  IDMT adapter, each when the \<open>--datasets\<close> argument names it.
\<close>

definition collect_samples ::
  "librosa \<Rightarrow> dataset_processor \<Rightarrow> args \<Rightarrow> environment \<Rightarrow> rng \<Rightarrow> sample list \<times> rng" where
  "collect_samples L processor a env g =
     (let all_samples =
            (if ''guitarset'' \<in> set (datasets a) then process_guitarset L processor env
             else [])
      in if ''idmt-guitar'' \<in> set (datasets a)
         then (case process_idmt_guitar L processor env g of
                 (idmt_samples, g') \<Rightarrow> (all_samples @ idmt_samples, g'))
         else (all_samples, g))"

definition np_savez ::
  "string \<Rightarrow> real list list \<Rightarrow> nat list \<Rightarrow> string list \<Rightarrow> filesystem \<Rightarrow> filesystem" where
  "np_savez p X y vocab fs = fs\<lparr>files := (files fs)(p \<mapsto> Npz_archive X y vocab)\<rparr>"

text \<open>
  A run of \<open>main\<close>: the disk it leaves, what it prints (of the messages of \<open>main\<close>
  itself), and the exception that ends it when one is not caught. Only the block
  around \<open>prepare_training_data\<close> and \<open>np.savez\<close> has a handler; an exception of
  \<open>save_processed_data\<close> leaves \<open>main\<close>. \<open>np.savez\<close> is taken to complete: it
  writes the archive at its path.
\<close>

record run =
  disk :: filesystem
  printed :: "message list"
  uncaught :: "exn option"

definition main :: "librosa \<Rightarrow> args \<Rightarrow> environment \<Rightarrow> rng \<Rightarrow> filesystem \<Rightarrow> run" where
  "main L a env g fs =
     (let processor = DatasetProcessor ''datasets'';
          all_samples = fst (collect_samples L processor a env g)
      in if all_samples = []
         then \<lparr>disk = fs, printed = [No_dataset_processed], uncaught = None\<rparr>
         else
           (let output_file = output_dir a @ ''/musictutor_training_data.json'' in
            case save_processed_data processor all_samples output_file env fs of
              (Inl e, fs') \<Rightarrow> \<lparr>disk = fs', printed = [], uncaught = Some e\<rparr>
            | (Inr u, fs') \<Rightarrow>
                (case prepare_training_data processor all_samples of
                   Inl e \<Rightarrow>
                     \<lparr>disk = fs',
                      printed = [Training_data_error e, Json_saved_only, Next_steps],
                      uncaught = None\<rparr>
                 | Inr (X, y) \<Rightarrow>
                     \<lparr>disk = np_savez (output_dir a @ ''/training_data.npz'') X y
                               (chord_vocab processor) fs',
                      printed = [Training_data_saved, Next_steps],
                      uncaught = None\<rparr>)))"

section \<open>Shapes, and what the signal library promises\<close>

text \<open>
  The framing of the library, as its documentation gives it for the default centred
  frames: a signal of \<open>n\<close> samples analysed with hop length \<open>h\<close> has \<open>1 + n div h\<close>
  frames. \<open>has_shape rows cols a\<close> says that \<open>a\<close> is a \<open>rows\<close> by \<open>cols\<close> array.

  \<open>librosa_contract\<close> is the assumption on the library under which the shape of a
  bundle is stated: a feature function that returns, returns one row per bin and one
  column per frame of the hop length it was given, and \<open>power_to_db\<close> keeps the shape
  of its argument. Nothing is assumed about when a function raises.
\<close>

definition n_frames :: "audio \<Rightarrow> nat \<Rightarrow> nat" where
  "n_frames y hop = 1 + length y div hop"

definition has_shape :: "nat \<Rightarrow> nat \<Rightarrow> ndarray \<Rightarrow> bool" where
  "has_shape rows cols a \<longleftrightarrow> length a = rows \<and> list_all (\<lambda>r. length r = cols) a"

definition librosa_contract :: "librosa \<Rightarrow> bool" where
  "librosa_contract L \<longleftrightarrow>
     (\<forall>y sr nfft hop n a.
        chroma_stft L y sr nfft hop n = Inr a \<longrightarrow> has_shape n (n_frames y hop) a) \<and>
     (\<forall>y sr nfft hop n a.
        melspectrogram L y sr nfft hop n = Inr a \<longrightarrow> has_shape n (n_frames y hop) a) \<and>
     (\<forall>m a rows cols.
        power_to_db L m = Inr a \<longrightarrow> has_shape rows cols m \<longrightarrow> has_shape rows cols a) \<and>
     (\<forall>y sr n nfft hop a.
        mfcc L y sr n nfft hop = Inr a \<longrightarrow> has_shape n (n_frames y hop) a) \<and>
     (\<forall>y sr nfft hop a.
        spectral_centroid L y sr nfft hop = Inr a \<longrightarrow> has_shape 1 (n_frames y hop) a) \<and>
     (\<forall>y fl hop a. rms_energy L y fl hop = Inr a \<longrightarrow> has_shape 1 (n_frames y hop) a) \<and>
     (\<forall>y fl hop a.
        zero_crossing_rate L y fl hop = Inr a \<longrightarrow> has_shape 1 (n_frames y hop) a)"

text \<open>
  The shape a sample's chroma field has when the extractor made it: every frame holds
  \<open>n_chroma\<close> values. A sample without features satisfies it.
\<close>

definition chroma_frames_ok :: "dataset_processor \<Rightarrow> sample \<Rightarrow> bool" where
  "chroma_frames_ok self s =
     (case features s of
        None \<Rightarrow> True
      | Some b \<Rightarrow> list_all (\<lambda>frame. length frame = n_chroma self) (chroma b))"

text \<open>A file whose lower-cased stem holds one of the patterns of the table.\<close>

definition pattern_matched :: "wav_file \<Rightarrow> bool" where
  "pattern_matched f \<longleftrightarrow> first_match chord_mappings (lower (stem f)) \<noteq> None"

section \<open>Concrete inputs\<close>

text \<open>
  Inputs on which the model is run below. \<open>stub_librosa\<close> stands in for the library:
  it rejects the empty signal and returns arrays of zeros of the promised shape.
  \<open>example_env d fs fault\<close> is a disk where only the directory \<open>d\<close> exists, holding
  the files \<open>fs\<close>; \<open>default_args\<close> are the defaults of the argument parser.
\<close>

definition stub_array :: "audio \<Rightarrow> nat \<Rightarrow> nat \<Rightarrow> exn + ndarray" where
  "stub_array y hop rows =
     (if y = [] then Inl LibraryError else Inr (replicate rows (replicate (n_frames y hop) 0)))"

definition stub_librosa :: librosa where
  "stub_librosa =
     \<lparr>chroma_stft = (\<lambda>y sr nfft hop n. stub_array y hop n),
      melspectrogram = (\<lambda>y sr nfft hop n. stub_array y hop n),
      power_to_db = (\<lambda>m. Inr m),
      mfcc = (\<lambda>y sr n nfft hop. stub_array y hop n),
      spectral_centroid = (\<lambda>y sr nfft hop. stub_array y hop 1),
      rms_energy = (\<lambda>y fl hop. stub_array y hop 1),
      zero_crossing_rate = (\<lambda>y fl hop. stub_array y hop 1)\<rparr>"

definition example_file :: "string \<Rightarrow> audio \<Rightarrow> wav_file" where
  "example_file name y = \<lparr>path = name @ ''.wav'', stem = name, decoded = Inr y\<rparr>"

definition example_env :: "string \<Rightarrow> wav_file list \<Rightarrow> nat option \<Rightarrow> environment" where
  "example_env d fs fault =
     \<lparr>wav_files = (\<lambda>p. if p = d then Some fs else None),
      clock = ''2024-01-01T00:00:00'', write_fault = fault\<rparr>"

definition default_args :: args where
  "default_args =
     \<lparr>datasets = [''guitarset'', ''idmt-guitar''], output_dir = ''datasets/processed''\<rparr>"

definition empty_disk :: filesystem where
  "empty_disk = \<lparr>dirs = {}, files = Map.empty\<rparr>"

definition chroma_only :: "real list list \<Rightarrow> feature_bundle" where
  "chroma_only c =
     \<lparr>chroma = c, mel_spectrogram = [], mfcc_list = [], spectral_centroid_list = [],
      rms = [], zcr = [],
      shape = \<lparr>time_steps = length c, chroma_bins = 12, mel_bins = 128, mfcc_coeffs = 13\<rparr>\<rparr>"

definition example_sample :: "string \<Rightarrow> feature_bundle option \<Rightarrow> sample" where
  "example_sample label b =
     \<lparr>sample_id = ''IDMT_take_01'', chord = label, instrument = ''guitar'',
      quality = ''mixed'', audio_file = ''datasets/idmt-guitar/take_01.wav'', duration = 1,
      features = b, source_info = IDMT_metadata ''take_01'' 22050\<rparr>"

section \<open>Properties of the substring test\<close>

lemma starts_with_prefix: "starts_with p s \<longleftrightarrow> prefix p s"
  by (induction p s rule: starts_with.induct) simp_all

lemma str_in_sublist: "str_in p s \<longleftrightarrow> sublist p s"
  by (induction s) (simp_all add: starts_with_prefix sublist_Cons_right)

lemma str_in_single: "str_in [c] s \<longleftrightarrow> c \<in> set s"
  by (induction s) auto

lemma str_in_first_char: "str_in (c # p) s \<Longrightarrow> c \<in> set s"
  by (induction s) auto

section \<open>What the label inference returns\<close>

lemmas infer_eval =
  infer_chord_from_filename_def chord_mappings_def lower_def lower_char_def
  upper_letters_def lower_letters_def random_choice_def fallback_chords_def

lemma str_in_absent: "c \<notin> set s \<Longrightarrow> str_in (c # p) s = False"
  using str_in_first_char by blast

lemma first_match_table:
  "first_match chord_mappings s =
     (if CHR ''a'' \<in> set s then Some ''A''
      else if CHR ''c'' \<in> set s then Some ''C''
      else if CHR ''d'' \<in> set s then Some ''D''
      else if CHR ''e'' \<in> set s then Some ''E''
      else if CHR ''g'' \<in> set s then Some ''G'' else None)"
  by (simp add: chord_mappings_def str_in_single str_in_absent cong: if_cong)

lemma first_match_major:
  "first_match chord_mappings s = Some c \<Longrightarrow> c \<in> {''A'', ''C'', ''D'', ''E'', ''G''}"
  by (simp add: first_match_table split: if_splits)

lemma random_choice_mem: "xs \<noteq> [] \<Longrightarrow> fst (random_choice xs g) \<in> set xs"
  by (simp add: random_choice_def)

text \<open>
  Claim C1 says that a file of the IDMT source whose lower-cased name contains \<open>gm\<close> is
  labelled \<open>Gm\<close>. The table holds the entry \<open>gm\<close>, but the loop reaches the entry \<open>g\<close>
  first, and a name that contains \<open>gm\<close> contains \<open>g\<close>: the file \<open>riff_Gm_01\<close> is
  labelled \<open>G\<close>, whatever the random source.
\<close>

theorem gm_filename_is_labelled_G:
  "infer_chord_from_filename ''riff_Gm_01'' g = (''G'', g)"
  by (simp add: infer_eval)

text \<open>
  Claim C9: when a pattern of the table matches, the label is one of the bare major
  labels \<open>A\<close>, \<open>C\<close>, \<open>D\<close>, \<open>E\<close>, \<open>G\<close> and the random source is left untouched; a name
  that contains a letter followed by \<open>m\<close> or \<open>7\<close> contains the letter, whose pattern
  comes first; so a label outside the five major ones comes from the random fallback,
  and is then one of \<open>Am\<close>, \<open>Em\<close>, \<open>Dm\<close>.
\<close>

theorem pattern_path_returns_major_only:
  "(first_match chord_mappings (lower filename) \<noteq> None \<longrightarrow>
      fst (infer_chord_from_filename filename g) \<in> {''A'', ''C'', ''D'', ''E'', ''G''} \<and>
      snd (infer_chord_from_filename filename g) = g) \<and>
   (\<forall>x \<in> {CHR ''a'', CHR ''c'', CHR ''d'', CHR ''e'', CHR ''g''}.
      \<forall>y \<in> {CHR ''m'', CHR ''7''}.
        str_in [x, y] (lower filename) \<longrightarrow> str_in [x] (lower filename)) \<and>
   (fst (infer_chord_from_filename filename g) \<notin> {''A'', ''C'', ''D'', ''E'', ''G''} \<longrightarrow>
      first_match chord_mappings (lower filename) = None \<and>
      infer_chord_from_filename filename g = random_choice fallback_chords g \<and>
      fst (infer_chord_from_filename filename g) \<in> {''Am'', ''Em'', ''Dm''})"
proof (intro conjI impI ballI)
  assume "first_match chord_mappings (lower filename) \<noteq> None"
  then obtain c where c: "first_match chord_mappings (lower filename) = Some c" by blast
  from first_match_major[OF c] c
  show "fst (infer_chord_from_filename filename g) \<in> {''A'', ''C'', ''D'', ''E'', ''G''}"
    by (simp add: infer_chord_from_filename_def)
  from c show "snd (infer_chord_from_filename filename g) = g"
    by (simp add: infer_chord_from_filename_def)
next
  fix x y assume "str_in [x, y] (lower filename)"
  then show "str_in [x] (lower filename)"
    by (simp add: str_in_single str_in_first_char)
next
  assume n: "fst (infer_chord_from_filename filename g) \<notin> {''A'', ''C'', ''D'', ''E'', ''G''}"
  show none: "first_match chord_mappings (lower filename) = None"
  proof (cases "first_match chord_mappings (lower filename)")
    case (Some c)
    with first_match_major[OF Some] n show ?thesis
      by (simp add: infer_chord_from_filename_def)
  qed simp
  then show eq: "infer_chord_from_filename filename g = random_choice fallback_chords g"
    by (simp add: infer_chord_from_filename_def)
  have "fst (random_choice fallback_chords g) \<in> set fallback_chords"
    by (rule random_choice_mem) (simp add: fallback_chords_def)
  with n eq show "fst (infer_chord_from_filename filename g) \<in> {''Am'', ''Em'', ''Dm''}"
    by (simp add: fallback_chords_def)
qed

theorem pattern_path_returns_major_only_witness:
  "first_match chord_mappings (lower ''Am_strum7'') \<noteq> None \<and>
   fst (infer_chord_from_filename ''Am_strum7'' (sconst 3)) = ''A'' \<and>
   str_in ''am'' (lower ''Am_strum7'') \<and> str_in ''a'' (lower ''Am_strum7'') \<and>
   fst (infer_chord_from_filename ''riff_01'' (sconst 5)) \<notin> {''A'', ''C'', ''D'', ''E'', ''G''} \<and>
   first_match chord_mappings (lower ''riff_01'') = None \<and>
   fst (infer_chord_from_filename ''riff_01'' (sconst 5)) = ''Am''"
  using pattern_path_returns_major_only[of "''Am_strum7''" "sconst 3"]
    pattern_path_returns_major_only[of "''riff_01''" "sconst 5"]
  by (simp add: infer_eval)

section \<open>The label index\<close>

lemma list_index_nth:
  "distinct xs \<Longrightarrow> i < length xs \<Longrightarrow> list_index xs (xs ! i) = Inr i"
proof (induction xs arbitrary: i)
  case Nil
  then show ?case by simp
next
  case (Cons x xs)
  show ?case
  proof (cases i)
    case 0
    then show ?thesis by simp
  next
    case (Suc j)
    with Cons.prems have "xs ! j \<in> set xs" "x \<notin> set xs" by auto
    then have "x \<noteq> xs ! j" by blast
    with Cons Suc show ?thesis by simp
  qed
qed

lemma list_index_mem:
  "x \<in> set xs \<Longrightarrow> \<exists>i < length xs. list_index xs x = Inr i \<and> xs ! i = x"
  by (induction xs) (auto split: sum.splits)

lemma distinct_vocab: "distinct (chord_vocab (DatasetProcessor dir))"
  by (simp add: DatasetProcessor_def)

lemma length_vocab: "length (chord_vocab (DatasetProcessor dir)) = 34"
  by (simp add: DatasetProcessor_def)

lemma label_idx_in_range:
  "\<exists>i < length (chord_vocab (DatasetProcessor dir)). label_idx (DatasetProcessor dir) c = Inr i"
proof (cases "c \<in> set (chord_vocab (DatasetProcessor dir))")
  case True
  from list_index_mem[OF True] True show ?thesis by (auto simp: label_idx_def)
next
  case False
  then show ?thesis by (simp add: label_idx_def length_vocab)
qed

text \<open>
  Claim C5: the label-to-index mapping of the processor is total on strings (it never
  raises, and its result is a position of the vocabulary); the label at position \<open>i\<close>
  of the vocabulary maps to \<open>i\<close>; a string that is not in the vocabulary maps to 0.
  The comparison is exact: \<open>am\<close> is not \<open>Am\<close>.
\<close>

theorem label_idx_total_and_fixed:
  "(\<exists>i < length (chord_vocab (DatasetProcessor dir)).
      label_idx (DatasetProcessor dir) c = Inr i) \<and>
   (\<forall>i < length (chord_vocab (DatasetProcessor dir)).
      label_idx (DatasetProcessor dir) (chord_vocab (DatasetProcessor dir) ! i) = Inr i) \<and>
   (c \<notin> set (chord_vocab (DatasetProcessor dir)) \<longrightarrow> label_idx (DatasetProcessor dir) c = Inr 0)"
proof (intro conjI allI impI)
  show "\<exists>i < length (chord_vocab (DatasetProcessor dir)).
      label_idx (DatasetProcessor dir) c = Inr i"
    by (rule label_idx_in_range)
next
  fix i assume "i < length (chord_vocab (DatasetProcessor dir))"
  then show "label_idx (DatasetProcessor dir) (chord_vocab (DatasetProcessor dir) ! i) = Inr i"
    by (simp add: label_idx_def list_index_nth distinct_vocab)
next
  assume "c \<notin> set (chord_vocab (DatasetProcessor dir))"
  then show "label_idx (DatasetProcessor dir) c = Inr 0" by (simp add: label_idx_def)
qed

theorem label_idx_total_and_fixed_witness:
  "label_idx (DatasetProcessor ''datasets'') ''Am'' = Inr 21 \<and>
   chord_vocab (DatasetProcessor ''datasets'') ! 21 = ''Am'' \<and>
   ''am'' \<notin> set (chord_vocab (DatasetProcessor ''datasets'')) \<and>
   label_idx (DatasetProcessor ''datasets'') ''am'' = Inr 0"
  using label_idx_total_and_fixed[of "''datasets''" "''am''"]
  by (simp add: label_idx_def DatasetProcessor_def)

section \<open>The training-set builder\<close>

lemma training_loop_cong:
  "map features xs = map features ys \<Longrightarrow>
   map (\<lambda>s. label_idx self (chord s)) xs = map (\<lambda>s. label_idx self (chord s)) ys \<Longrightarrow>
   training_loop self xs fl ll = training_loop self ys fl ll"
proof (induction xs arbitrary: ys fl ll)
  case Nil
  then show ?case by simp
next
  case (Cons x xs)
  then obtain y ys' where ys: "ys = y # ys'" by (cases ys) auto
  with Cons.prems have h: "features x = features y"
    "label_idx self (chord x) = label_idx self (chord y)"
    "map features xs = map features ys'"
    "map (\<lambda>s. label_idx self (chord s)) xs = map (\<lambda>s. label_idx self (chord s)) ys'"
    by auto
  from Cons.IH[OF h(3,4)] h(1,2) show ?case
    unfolding ys by (simp split: option.splits sum.splits)
qed

lemma training_loop_usable:
  "\<forall>s \<in> set smpls. \<exists>i. label_idx self (chord s) = Inr i \<Longrightarrow>
   \<exists>X y. training_loop self smpls fl ll = Inr (fl @ X, ll @ y) \<and>
     X = map (\<lambda>s. mean_axis0 (chroma (the (features s)))) (filter usable smpls) \<and>
     map Inr y = map (\<lambda>s. label_idx self (chord s)) (filter usable smpls)"
proof (induction smpls arbitrary: fl ll)
  case Nil
  then show ?case by simp
next
  case (Cons s smpls)
  from Cons.prems obtain i where i: "label_idx self (chord s) = Inr i" by auto
  from Cons.prems have rest: "\<forall>s \<in> set smpls. \<exists>i. label_idx self (chord s) = Inr i" by simp
  show ?case
  proof (cases "usable s")
    case True
    then obtain b where b: "features s = Some b" "chroma b \<noteq> []" "0 < array_size (chroma b)"
      by (auto simp: usable_def split: option.splits)
    from Cons.IH[OF rest, of "fl @ [mean_axis0 (chroma b)]" "ll @ [i]"] b i True
    show ?thesis by auto
  next
    case False
    with Cons.IH[OF rest, of fl ll] show ?thesis
      by (auto simp: usable_def split: option.splits)
  qed
qed

lemma training_loop_vocab:
  "\<exists>X y. training_loop (DatasetProcessor dir) smpls [] [] = Inr (X, y) \<and>
     X = map (\<lambda>s. mean_axis0 (chroma (the (features s)))) (filter usable smpls) \<and>
     map Inr y = map (\<lambda>s. label_idx (DatasetProcessor dir) (chord s)) (filter usable smpls)"
proof -
  have "\<forall>s \<in> set smpls. \<exists>i. label_idx (DatasetProcessor dir) (chord s) = Inr i"
    using label_idx_in_range by blast
  from training_loop_usable[OF this, of "[]" "[]"] show ?thesis by simp
qed

text \<open>
  What \<open>prepare_training_data\<close> returns: \<open>ValueError\<close> exactly when no sample is
  usable, and otherwise one mean vector and one label index per usable sample, in the
  order of the samples.
\<close>

lemma prepare_training_data_result:
  "prepare_training_data (DatasetProcessor dir) smpls =
     (if filter usable smpls = [] then Inl ValueError
      else Inr (map (\<lambda>s. mean_axis0 (chroma (the (features s)))) (filter usable smpls),
                map (\<lambda>s. projr (label_idx (DatasetProcessor dir) (chord s)))
                  (filter usable smpls)))"
proof -
  obtain X y where r: "training_loop (DatasetProcessor dir) smpls [] [] = Inr (X, y)"
    and X: "X = map (\<lambda>s. mean_axis0 (chroma (the (features s)))) (filter usable smpls)"
    and y: "map Inr y =
              map (\<lambda>s. label_idx (DatasetProcessor dir) (chord s)) (filter usable smpls)"
    using training_loop_vocab[of dir smpls] by blast
  have "map projr (map Inr y :: (exn + nat) list) = y" by (simp add: comp_def)
  with y have y': "y = map (\<lambda>s. projr (label_idx (DatasetProcessor dir) (chord s)))
                        (filter usable smpls)"
    by (simp add: comp_def)
  show ?thesis using r X y' by (simp add: prepare_training_data_def)
qed

lemma foldr_max_length_le:
  "list_all (\<lambda>r. length r = n) a \<Longrightarrow> foldr (\<lambda>xs. max (length xs)) a 0 \<le> n"
  by (induction a) auto

lemma length_transpose_rect:
  "a \<noteq> [] \<Longrightarrow> list_all (\<lambda>r. length r = n) a \<Longrightarrow> length (transpose a) = n"
  using foldr_max_length_le[of n "tl a"]
  by (cases a) (auto simp: length_transpose)

lemma length_mean_axis0:
  "a \<noteq> [] \<Longrightarrow> list_all (\<lambda>r. length r = n) a \<Longrightarrow> length (mean_axis0 a) = n"
  by (simp add: mean_axis0_def length_transpose_rect)

lemmas sample_eval =
  example_sample_def chroma_only_def usable_def array_size_def chroma_frames_ok_def

text \<open>
  Claim C6: for samples whose chroma frames hold the 12 values the extractor gives
  them, the mean over the time axis of every usable sample is a vector of length 12,
  whatever the number of frames; and when the builder returns, its matrix has one row
  per usable sample, every row has 12 entries, and there are as many label indices as
  rows.
\<close>

theorem training_matrix_shape:
  assumes ok: "list_all (chroma_frames_ok (DatasetProcessor dir)) smpls"
  shows "(\<forall>s \<in> set smpls. usable s \<longrightarrow>
            length (mean_axis0 (chroma (the (features s)))) = 12) \<and>
         (\<forall>X y. prepare_training_data (DatasetProcessor dir) smpls = Inr (X, y) \<longrightarrow>
            length X = length (filter usable smpls) \<and> length y = length X \<and>
            list_all (\<lambda>row. length row = 12) X)"
proof -
  have vec: "length (mean_axis0 (chroma (the (features s)))) = 12"
    if "s \<in> set smpls" "usable s" for s
  proof -
    from that(2) obtain b where b: "features s = Some b" "chroma b \<noteq> []"
      by (auto simp: usable_def split: option.splits)
    from ok that(1) have "chroma_frames_ok (DatasetProcessor dir) s"
      by (simp add: list_all_iff)
    with b have "list_all (\<lambda>frame. length frame = 12) (chroma b)"
      by (simp add: chroma_frames_ok_def DatasetProcessor_def)
    with b show ?thesis by (simp add: length_mean_axis0)
  qed
  show ?thesis
  proof (intro conjI ballI allI impI)
    fix s assume "s \<in> set smpls" "usable s"
    then show "length (mean_axis0 (chroma (the (features s)))) = 12" by (rule vec)
  next
    fix X y assume "prepare_training_data (DatasetProcessor dir) smpls = Inr (X, y)"
    then have X: "X = map (\<lambda>s. mean_axis0 (chroma (the (features s)))) (filter usable smpls)"
      and y: "y = map (\<lambda>s. projr (label_idx (DatasetProcessor dir) (chord s)))
                    (filter usable smpls)"
      by (auto simp: prepare_training_data_result split: if_splits)
    show "length X = length (filter usable smpls)" by (simp add: X)
    show "length y = length X" by (simp add: X y)
    show "list_all (\<lambda>row. length row = 12) X" using vec by (auto simp: X list_all_iff)
  qed
qed

theorem training_matrix_shape_witness:
  "list_all (chroma_frames_ok (DatasetProcessor ''datasets''))
     [example_sample ''Am'' (Some (chroma_only [replicate 12 1, replicate 12 3])),
      example_sample ''G'' None] \<and>
   (\<exists>X y. prepare_training_data (DatasetProcessor ''datasets'')
       [example_sample ''Am'' (Some (chroma_only [replicate 12 1, replicate 12 3])),
        example_sample ''G'' None] = Inr (X, y) \<and>
      length X = 1 \<and> y = [21] \<and> list_all (\<lambda>row. length row = 12) X)"
proof -
  let ?smpls = "[example_sample ''Am'' (Some (chroma_only [replicate 12 1, replicate 12 3])),
      example_sample ''G'' None]"
  have ok: "list_all (chroma_frames_ok (DatasetProcessor ''datasets'')) ?smpls"
    by (simp add: sample_eval DatasetProcessor_def)
  have u: "filter usable ?smpls =
      [example_sample ''Am'' (Some (chroma_only [replicate 12 1, replicate 12 3]))]"
    by (simp add: sample_eval)
  have l: "label_idx (DatasetProcessor ''datasets'') ''Am'' = Inr 21"
    by (simp add: label_idx_def DatasetProcessor_def)
  have r: "prepare_training_data (DatasetProcessor ''datasets'') ?smpls =
      Inr ([mean_axis0 [replicate 12 1, replicate 12 3]], [21])"
    unfolding prepare_training_data_result u using l
    by (simp add: example_sample_def chroma_only_def)
  from training_matrix_shape[OF ok] r
  have "list_all (\<lambda>row. length row = 12) [mean_axis0 [replicate 12 1, replicate 12 3]]"
    by blast
  with ok r show ?thesis by simp
qed

text \<open>
  Claim C10: position 0 of the vocabulary is the label \<open>C\<close>, which itself maps to 0; a
  sample whose label is outside the vocabulary gets the index of \<open>C\<close>, and replacing
  its label by \<open>C\<close> leaves the whole result of the builder unchanged, so the emitted
  label array cannot tell the two apart.
\<close>

theorem fallback_index_is_C:
  "chord_vocab (DatasetProcessor dir) ! 0 = ''C'' \<and>
   label_idx (DatasetProcessor dir) ''C'' = Inr 0 \<and>
   (chord s \<notin> set (chord_vocab (DatasetProcessor dir)) \<longrightarrow>
      label_idx (DatasetProcessor dir) (chord s) = label_idx (DatasetProcessor dir) ''C'' \<and>
      prepare_training_data (DatasetProcessor dir) (pre @ s # post) =
      prepare_training_data (DatasetProcessor dir) (pre @ s\<lparr>chord := ''C''\<rparr> # post))"
proof (intro conjI impI)
  show "chord_vocab (DatasetProcessor dir) ! 0 = ''C''" by (simp add: DatasetProcessor_def)
  show c0: "label_idx (DatasetProcessor dir) ''C'' = Inr 0"
    by (simp add: label_idx_def DatasetProcessor_def)
  assume "chord s \<notin> set (chord_vocab (DatasetProcessor dir))"
  then show eq: "label_idx (DatasetProcessor dir) (chord s) =
      label_idx (DatasetProcessor dir) ''C''"
    using c0 by (simp add: label_idx_def)
  have "training_loop (DatasetProcessor dir) (pre @ s # post) [] [] =
        training_loop (DatasetProcessor dir) (pre @ s\<lparr>chord := ''C''\<rparr> # post) [] []"
    by (rule training_loop_cong) (simp_all add: eq)
  then show "prepare_training_data (DatasetProcessor dir) (pre @ s # post) =
      prepare_training_data (DatasetProcessor dir) (pre @ s\<lparr>chord := ''C''\<rparr> # post)"
    by (simp add: prepare_training_data_def)
qed

theorem fallback_index_is_C_witness:
  "''F7'' \<notin> set (chord_vocab (DatasetProcessor ''datasets'')) \<and>
   prepare_training_data (DatasetProcessor ''datasets'')
     [example_sample ''F7'' (Some (chroma_only [replicate 12 1]))] =
   prepare_training_data (DatasetProcessor ''datasets'')
     [example_sample ''C'' (Some (chroma_only [replicate 12 1]))] \<and>
   label_idx (DatasetProcessor ''datasets'') ''F7'' = Inr 0"
proof -
  have n: "''F7'' \<notin> set (chord_vocab (DatasetProcessor ''datasets''))"
    by (simp add: DatasetProcessor_def)
  have c: "chord (example_sample ''F7'' (Some (chroma_only [replicate 12 1]))) = ''F7''"
    by (simp add: example_sample_def)
  have e: "(example_sample ''F7'' (Some (chroma_only [replicate 12 1])))\<lparr>chord := ''C''\<rparr> =
      example_sample ''C'' (Some (chroma_only [replicate 12 1]))"
    by (simp add: example_sample_def)
  from fallback_index_is_C[of "''datasets''"
      "example_sample ''F7'' (Some (chroma_only [replicate 12 1]))" "[]" "[]"]
  have "label_idx (DatasetProcessor ''datasets'') ''C'' = Inr 0"
    and "chord (example_sample ''F7'' (Some (chroma_only [replicate 12 1]))) \<notin>
           set (chord_vocab (DatasetProcessor ''datasets'')) \<longrightarrow>
         label_idx (DatasetProcessor ''datasets'')
           (chord (example_sample ''F7'' (Some (chroma_only [replicate 12 1])))) =
         label_idx (DatasetProcessor ''datasets'') ''C'' \<and>
         prepare_training_data (DatasetProcessor ''datasets'')
           ([] @ example_sample ''F7'' (Some (chroma_only [replicate 12 1])) # []) =
         prepare_training_data (DatasetProcessor ''datasets'')
           ([] @ (example_sample ''F7'' (Some (chroma_only [replicate 12 1])))
                   \<lparr>chord := ''C''\<rparr> # [])"
    by blast+
  then show ?thesis unfolding c e using n by simp
qed

section \<open>The shape of a feature bundle\<close>

lemma T_tolist_shape:
  assumes "has_shape rows cols a" "0 < rows"
  shows "length (T_tolist a) = cols \<and> list_all (\<lambda>frame. length frame = rows) (T_tolist a)"
proof -
  from assms have ne: "a \<noteq> []" and len: "length a = rows"
    and rect: "\<forall>i < length a. length (a ! i) = cols"
    by (auto simp: has_shape_def list_all_iff)
  have "transpose a = map (\<lambda>i. map (\<lambda>j. a ! j ! i) [0..<length a]) [0..<cols]"
    by (rule transpose_rectangle) (use ne rect in auto)
  then show ?thesis by (simp add: T_tolist_def len list_all_iff)
qed

lemma shape1_has_shape: "has_shape rows cols a \<Longrightarrow> 0 < rows \<Longrightarrow> shape1 a = cols"
  by (cases a) (auto simp: has_shape_def shape1_def)

lemma extract_features_shape:
  assumes c: "librosa_contract L" and r: "extract_features L self y = Some b"
    and pos: "0 < n_chroma self" "0 < n_mels self"
  shows "length (chroma b) = n_frames y (hop_length self) \<and>
         length (mel_spectrogram b) = n_frames y (hop_length self) \<and>
         length (mfcc_list b) = n_frames y (hop_length self) \<and>
         length (spectral_centroid_list b) = n_frames y (hop_length self) \<and>
         length (rms b) = n_frames y (hop_length self) \<and>
         length (zcr b) = n_frames y (hop_length self) \<and>
         list_all (\<lambda>frame. length frame = n_chroma self) (chroma b) \<and>
         time_steps (shape b) = n_frames y (hop_length self)"
proof -
  from r obtain ca ms md mf ce ra za where
    calls: "chroma_stft L y (sample_rate self) (n_fft self) (hop_length self) (n_chroma self)
              = Inr ca"
      "melspectrogram L y (sample_rate self) (n_fft self) (hop_length self) (n_mels self)
         = Inr ms"
      "power_to_db L ms = Inr md"
      "mfcc L y (sample_rate self) 13 (n_fft self) (hop_length self) = Inr mf"
      "spectral_centroid L y (sample_rate self) (n_fft self) (hop_length self) = Inr ce"
      "rms_energy L y (n_fft self) (hop_length self) = Inr ra"
      "zero_crossing_rate L y (n_fft self) (hop_length self) = Inr za"
    and b: "b = \<lparr>chroma = T_tolist ca, mel_spectrogram = T_tolist md, mfcc_list = T_tolist mf,
                spectral_centroid_list = T_tolist ce, rms = T_tolist ra, zcr = T_tolist za,
                shape = \<lparr>time_steps = shape1 ca, chroma_bins = n_chroma self,
                         mel_bins = n_mels self, mfcc_coeffs = 13\<rparr>\<rparr>"
    unfolding extract_features_def by (auto split: sum.splits)
  let ?T = "n_frames y (hop_length self)"
  have s: "has_shape (n_chroma self) ?T ca" "has_shape (n_mels self) ?T ms"
    "has_shape 13 ?T mf" "has_shape 1 ?T ce" "has_shape 1 ?T ra" "has_shape 1 ?T za"
    using c calls by (simp_all add: librosa_contract_def)
  from c calls(3) s(2) have md: "has_shape (n_mels self) ?T md"
    unfolding librosa_contract_def by fast
  show ?thesis
    using T_tolist_shape[OF s(1) pos(1)] T_tolist_shape[OF md pos(2)]
      T_tolist_shape[OF s(3)] T_tolist_shape[OF s(4)] T_tolist_shape[OF s(5)]
      T_tolist_shape[OF s(6)] shape1_has_shape[OF s(1) pos(1)]
    by (simp add: b)
qed

lemma stub_array_shape: "stub_array y hop rows = Inr a \<Longrightarrow> has_shape rows (n_frames y hop) a"
  by (auto simp: stub_array_def has_shape_def list_all_iff split: if_splits)

lemma stub_contract: "librosa_contract stub_librosa"
  by (simp add: librosa_contract_def stub_librosa_def stub_array_shape)

lemma stub_features_Some: "y \<noteq> [] \<Longrightarrow> extract_features stub_librosa self y \<noteq> None"
  by (simp add: extract_features_def stub_librosa_def stub_array_def)

lemma stub_features_None: "extract_features stub_librosa self [] = None"
  by (simp add: extract_features_def stub_librosa_def stub_array_def)

text \<open>
  Claim C4: \<open>extract_features\<close> is a total function that returns the empty bundle or
  a full one, never an exception and never a part of a bundle. With a library that
  keeps its framing contract, the six arrays of a full bundle have the same number of
  frames, \<open>1 + length y div 512\<close>, which is at least one, and the shape entry records
  that number.
\<close>

theorem extract_features_all_or_nothing:
  assumes "librosa_contract L"
  shows "case extract_features L (DatasetProcessor dir) y of
           None \<Rightarrow> True
         | Some b \<Rightarrow>
             0 < n_frames y 512 \<and>
             length (chroma b) = n_frames y 512 \<and>
             length (mel_spectrogram b) = n_frames y 512 \<and>
             length (mfcc_list b) = n_frames y 512 \<and>
             length (spectral_centroid_list b) = n_frames y 512 \<and>
             length (rms b) = n_frames y 512 \<and>
             length (zcr b) = n_frames y 512 \<and>
             time_steps (shape b) = n_frames y 512"
proof (cases "extract_features L (DatasetProcessor dir) y")
  case None
  then show ?thesis by simp
next
  case (Some b)
  from extract_features_shape[OF assms Some] Some show ?thesis
    by (simp add: DatasetProcessor_def n_frames_def)
qed

theorem extract_features_all_or_nothing_witness:
  "librosa_contract stub_librosa \<and>
   (case extract_features stub_librosa (DatasetProcessor ''datasets'') (replicate 1000 0) of
      None \<Rightarrow> False
    | Some b \<Rightarrow>
        length (chroma b) = 2 \<and> length (mel_spectrogram b) = 2 \<and> length (mfcc_list b) = 2 \<and>
        length (spectral_centroid_list b) = 2 \<and> length (rms b) = 2 \<and> length (zcr b) = 2 \<and>
        time_steps (shape b) = 2) \<and>
   extract_features stub_librosa (DatasetProcessor ''datasets'') [] = None"
proof -
  have ne: "replicate 1000 (0::real) \<noteq> []" by simp
  have n: "n_frames (replicate 1000 (0::real)) 512 = 2" by (simp add: n_frames_def)
  show ?thesis
    using extract_features_all_or_nothing[OF stub_contract,
        where dir = "''datasets''" and y = "replicate 1000 0"]
      stub_features_Some[OF ne, of "DatasetProcessor ''datasets''"] stub_contract
    by (auto simp: n stub_features_None split: option.splits)
qed

text \<open>
  The samples the two adapters gather have the chroma shape that claim C6 asks for,
  whenever the library keeps its contract.
\<close>

lemma extract_features_frames_ok:
  assumes "librosa_contract L"
  shows "case extract_features L (DatasetProcessor dir) y of
           None \<Rightarrow> True
         | Some b \<Rightarrow> list_all (\<lambda>frame. length frame = n_chroma (DatasetProcessor dir)) (chroma b)"
proof (cases "extract_features L (DatasetProcessor dir) y")
  case None
  then show ?thesis by simp
next
  case (Some b)
  have "0 < n_chroma (DatasetProcessor dir)" "0 < n_mels (DatasetProcessor dir)"
    by (simp_all add: DatasetProcessor_def)
  from extract_features_shape[OF assms Some this] Some show ?thesis by simp
qed

lemma guitarset_loop_ok:
  assumes c: "librosa_contract L"
  shows "list_all (chroma_frames_ok (DatasetProcessor dir)) acc \<Longrightarrow>
         list_all (chroma_frames_ok (DatasetProcessor dir))
           (guitarset_loop L (DatasetProcessor dir) fs acc)"
proof (induction fs arbitrary: acc)
  case Nil
  then show ?case by simp
next
  case (Cons f fs)
  show ?case
  proof (cases "guitarset_sample L (DatasetProcessor dir) f")
    case None
    with Cons show ?thesis by simp
  next
    case (Some s)
    then obtain y where "features s = extract_features L (DatasetProcessor dir) y"
      by (auto simp: guitarset_sample_def Let_def split: if_splits sum.splits)
    with extract_features_frames_ok[OF c, of dir y]
    have "chroma_frames_ok (DatasetProcessor dir) s"
      by (simp add: chroma_frames_ok_def split: option.splits)
    with Cons Some show ?thesis by simp
  qed
qed

lemma idmt_loop_ok:
  assumes c: "librosa_contract L"
  shows "list_all (chroma_frames_ok (DatasetProcessor dir)) acc \<Longrightarrow>
         list_all (chroma_frames_ok (DatasetProcessor dir))
           (fst (idmt_loop L (DatasetProcessor dir) fs acc g))"
proof (induction fs arbitrary: acc g)
  case Nil
  then show ?case by simp
next
  case (Cons f fs)
  obtain ch g' where i: "infer_chord_from_filename (stem f) g = (ch, g')"
    by (cases "infer_chord_from_filename (stem f) g")
  show ?case
  proof (cases "idmt_sample L (DatasetProcessor dir) f ch")
    case None
    with Cons i show ?thesis by simp
  next
    case (Some s)
    then obtain y where "features s = extract_features L (DatasetProcessor dir) y"
      by (auto simp: idmt_sample_def Let_def split: sum.splits)
    with extract_features_frames_ok[OF c, of dir y]
    have "chroma_frames_ok (DatasetProcessor dir) s"
      by (simp add: chroma_frames_ok_def split: option.splits)
    with Cons Some i show ?thesis by simp
  qed
qed

lemma collect_samples_frames_ok:
  assumes c: "librosa_contract L"
  shows "list_all (chroma_frames_ok (DatasetProcessor dir))
           (fst (collect_samples L (DatasetProcessor dir) a env g))"
  using guitarset_loop_ok[OF c, of dir "[]"] idmt_loop_ok[OF c, of dir "[]"]
  by (simp add: collect_samples_def process_guitarset_def process_idmt_guitar_def Let_def
      case_prod_beta split: option.splits)

section \<open>Persistence of the corpus\<close>

lemma encode_distribution_cases:
  "encode_distribution d =
     (case d of
        [] \<Rightarrow> ([], None)
      | (key, v) # rest \<Rightarrow> ([Distribution_key_chunk key], Some TypeError))"
  by (cases d rule: encode_distribution.cases) simp_all

lemma chord_distribution_empty:
  "chord_distribution (metadata (corpus_data self smpls env)) = [] \<longleftrightarrow> smpls = []"
proof -
  have "sort (remdups xs) = [] \<longleftrightarrow> xs = []" for xs :: "string list"
    by (metis set_empty set_remdups set_sort)
  then show ?thesis by (simp add: corpus_data_def Let_def)
qed

text \<open>
  On a sample list that is not empty the encoding ends in \<open>TypeError\<close>, with the two
  counts and the first key of \<open>chord_distribution\<close> written and no sample.
\<close>

lemma json_encode_nonempty:
  assumes "smpls \<noteq> []"
  shows "\<exists>key. json_encode (corpus_data self smpls env) =
           ([Total_samples_chunk (length smpls),
             Unique_chords_chunk (card (set (map chord smpls))),
             Distribution_key_chunk key], Some TypeError)"
proof -
  from assms have "chord_distribution (metadata (corpus_data self smpls env)) \<noteq> []"
    by (simp add: chord_distribution_empty)
  then obtain key v rest where
    "chord_distribution (metadata (corpus_data self smpls env)) = (key, v) # rest"
    by (cases "chord_distribution (metadata (corpus_data self smpls env))") auto
  then have "json_encode (corpus_data self smpls env) =
      ([Total_samples_chunk (total_samples (metadata (corpus_data self smpls env))),
        Unique_chords_chunk (unique_chords (metadata (corpus_data self smpls env))),
        Distribution_key_chunk key], Some TypeError)"
    by (simp add: json_encode_def Let_def encode_distribution_cases)
  then show ?thesis by (simp add: corpus_data_def Let_def)
qed

lemma save_files:
  "files (snd (save_processed_data self smpls out env fs)) =
     (files fs)(out \<mapsto> Json_text
        (case write_fault env of
           None \<Rightarrow> fst (json_encode (corpus_data self smpls env))
         | Some k \<Rightarrow> take k (fst (json_encode (corpus_data self smpls env)))))"
  by (simp add: save_processed_data_def json_dump_def open_w_def mkdir_parents_def Let_def
      case_prod_beta split: option.splits)

lemma save_result:
  "fst (save_processed_data self smpls out env fs) =
     (let ended = (case snd (json_encode (corpus_data self smpls env)) of
                     None \<Rightarrow> Inr () | Some e \<Rightarrow> Inl e)
      in case write_fault env of
           None \<Rightarrow> ended
         | Some k \<Rightarrow>
             if k < length (fst (json_encode (corpus_data self smpls env))) then Inl OSError
             else ended)"
  by (simp add: save_processed_data_def json_dump_def Let_def case_prod_beta
      split: option.splits)

lemma save_raises_on_samples:
  "smpls \<noteq> [] \<Longrightarrow> \<exists>e. fst (save_processed_data self smpls out env fs) = Inl e"
  using json_encode_nonempty[of smpls self env]
  by (auto simp: save_result Let_def split: option.splits)




section \<open>Runs of the pipeline\<close>

lemmas run_eval =
  collect_samples_def process_guitarset_def process_idmt_guitar_def guitarset_sample_def
  idmt_sample_def example_env_def example_file_def default_args_def DatasetProcessor_def
  corpus_data_def Let_def

lemma fst_collect_samples:
  "fst (collect_samples L self a env g) =
     (if ''guitarset'' \<in> set (datasets a) then process_guitarset L self env else []) @
     (if ''idmt-guitar'' \<in> set (datasets a) then fst (process_idmt_guitar L self env g)
      else [])"
  by (simp add: collect_samples_def Let_def case_prod_beta)

text \<open>
  Claim C8: when the adapters gathered no sample, \<open>main\<close> prints its message and
  returns; the disk is the one it started with, so neither the corpus document nor
  the training artifact is written (nor a directory made).
\<close>

theorem empty_corpus_persists_nothing:
  assumes "fst (collect_samples L (DatasetProcessor ''datasets'') a env g) = []"
  shows "main L a env g fs = \<lparr>disk = fs, printed = [No_dataset_processed], uncaught = None\<rparr>"
  using assms by (simp add: main_def Let_def)

theorem empty_corpus_persists_nothing_witness:
  "fst (collect_samples stub_librosa (DatasetProcessor ''datasets'') default_args
      (example_env ''elsewhere'' [] None) (sconst 0)) = [] \<and>
   main stub_librosa default_args (example_env ''elsewhere'' [] None) (sconst 0) empty_disk =
     \<lparr>disk = empty_disk, printed = [No_dataset_processed], uncaught = None\<rparr>"
proof -
  have e: "fst (collect_samples stub_librosa (DatasetProcessor ''datasets'') default_args
      (example_env ''elsewhere'' [] None) (sconst 0)) = []"
    by (simp add: run_eval)
  from empty_corpus_persists_nothing[OF e] e show ?thesis by simp
qed

text \<open>
  A run that gathered samples ends in the exception of \<open>save_processed_data\<close>, which
  \<open>main\<close> does not catch: nothing of the block around \<open>prepare_training_data\<close> runs.
\<close>

lemma main_with_samples:
  assumes "fst (collect_samples L (DatasetProcessor ''datasets'') a env g) \<noteq> []"
  shows "\<exists>e. uncaught (main L a env g fs) = Some e \<and> printed (main L a env g fs) = [] \<and>
           disk (main L a env g fs) =
             snd (save_processed_data (DatasetProcessor ''datasets'')
                    (fst (collect_samples L (DatasetProcessor ''datasets'') a env g))
                    (output_dir a @ ''/musictutor_training_data.json'') env fs)"
proof -
  let ?sv = "save_processed_data (DatasetProcessor ''datasets'')
                    (fst (collect_samples L (DatasetProcessor ''datasets'') a env g))
                    (output_dir a @ ''/musictutor_training_data.json'') env fs"
  from save_raises_on_samples[OF assms] obtain e where "fst ?sv = Inl e" by blast
  then obtain fs' where "?sv = (Inl e, fs')" by (cases ?sv) auto
  with assms show ?thesis by (simp add: main_def Let_def)
qed

text \<open>
  Claim C7 says that with no usable sample the builder reports its failure and the
  corpus document, already saved, stays intact and valid. On the GuitarSet file
  \<open>p1_C_fingerstyle\<close> with an empty signal (a sample without features, so no usable
  sample) the run ends in an uncaught \<open>TypeError\<close> of the save: \<open>main\<close> prints none of
  its messages, the builder is not reached, and the corpus file holds the fragment
  written before the exception.
\<close>

theorem run_without_usable_samples_ends_in_TypeError:
  "filter usable (fst (collect_samples stub_librosa (DatasetProcessor ''datasets'') default_args
      (example_env ''datasets/guitarset/audio'' [example_file ''p1_C_fingerstyle'' []] None)
      (sconst 0))) = [] \<and>
   uncaught (main stub_librosa default_args
      (example_env ''datasets/guitarset/audio'' [example_file ''p1_C_fingerstyle'' []] None)
      (sconst 0) empty_disk) = Some TypeError \<and>
   printed (main stub_librosa default_args
      (example_env ''datasets/guitarset/audio'' [example_file ''p1_C_fingerstyle'' []] None)
      (sconst 0) empty_disk) = [] \<and>
   files (disk (main stub_librosa default_args
      (example_env ''datasets/guitarset/audio'' [example_file ''p1_C_fingerstyle'' []] None)
      (sconst 0) empty_disk)) ''datasets/processed/musictutor_training_data.json'' =
     Some (Json_text [Total_samples_chunk 1, Unique_chords_chunk 1, Distribution_key_chunk ''C'']) \<and>
   files (disk (main stub_librosa default_args
      (example_env ''datasets/guitarset/audio'' [example_file ''p1_C_fingerstyle'' []] None)
      (sconst 0) empty_disk)) ''datasets/processed/training_data.npz'' = None"
proof -
  let ?env = "example_env ''datasets/guitarset/audio'' [example_file ''p1_C_fingerstyle'' []] None"
  let ?all = "fst (collect_samples stub_librosa (DatasetProcessor ''datasets'') default_args ?env
      (sconst 0))"
  have sp: "split_underscore ''p1_C_fingerstyle'' = [''p1'', ''C'', ''fingerstyle'']"
    by simp
  have f: "map features ?all = [None]"
    by (simp add: run_eval stub_features_None sp)
  have c: "map chord ?all = [''C'']"
    by (simp add: run_eval stub_features_None sp)
  from f have "length (map features ?all) = 1" by simp
  then have len: "length ?all = 1" by simp
  then have ne: "?all \<noteq> []" by auto
  from f len have nouse: "filter usable ?all = []"
    by (cases ?all) (auto simp: usable_def)
  have enc: "json_encode (corpus_data (DatasetProcessor ''datasets'') ?all ?env) =
      ([Total_samples_chunk 1, Unique_chords_chunk 1, Distribution_key_chunk ''C''],
       Some TypeError)"
    unfolding json_encode_def corpus_data_def Let_def c using len by simp
  have o: "output_dir default_args @ ''/musictutor_training_data.json'' =
      ''datasets/processed/musictutor_training_data.json''"
    by (simp add: default_args_def)
  let ?sv = "save_processed_data (DatasetProcessor ''datasets'') ?all
      ''datasets/processed/musictutor_training_data.json'' ?env empty_disk"
  have w: "write_fault ?env = None" by (simp add: example_env_def)
  have r: "fst ?sv = Inl TypeError"
    by (simp add: save_result enc w)
  have d: "files (snd ?sv) =
      (files empty_disk)(''datasets/processed/musictutor_training_data.json''
        \<mapsto> Json_text [Total_samples_chunk 1, Unique_chords_chunk 1, Distribution_key_chunk ''C''])"
    by (simp add: save_files enc w)
  obtain fs' where sv: "?sv = (Inl TypeError, fs')" using r by (cases ?sv) auto
  have m: "main stub_librosa default_args ?env (sconst 0) empty_disk =
      \<lparr>disk = fs', printed = [], uncaught = Some TypeError\<rparr>"
    using ne sv by (simp add: main_def Let_def o)
  have fs': "fs' = snd ?sv" using sv by simp
  have z: "files empty_disk = Map.empty" by (simp add: empty_disk_def)
  show ?thesis
    using nouse by (simp add: m fs' d z)
qed

section \<open>Two runs on the same inputs\<close>

lemma idmt_loop_length:
  "length (fst (idmt_loop L self fs acc g)) =
     length acc + length (filter (\<lambda>f. \<not> isl (decoded f)) fs)"
proof (induction fs arbitrary: acc g)
  case Nil
  then show ?case by simp
next
  case (Cons f fs)
  obtain c g' where i: "infer_chord_from_filename (stem f) g = (c, g')"
    by (cases "infer_chord_from_filename (stem f) g")
  show ?case
  proof (cases "decoded f")
    case (Inl e)
    with i Cons.IH[of acc g'] show ?thesis by (simp add: idmt_sample_def)
  next
    case (Inr y)
    then obtain s where "idmt_sample L self f c = Some s"
      by (simp add: idmt_sample_def Let_def)
    with i Inr Cons.IH[of "acc @ [s]" g'] show ?thesis by simp
  qed
qed

lemma idmt_loop_matched:
  "list_all pattern_matched fs \<Longrightarrow>
   fst (idmt_loop L self fs acc g1) = fst (idmt_loop L self fs acc g2)"
proof (induction fs arbitrary: acc g1 g2)
  case Nil
  then show ?case by simp
next
  case (Cons f fs)
  then obtain c where c: "first_match chord_mappings (lower (stem f)) = Some c"
    by (auto simp: pattern_matched_def)
  then have i: "infer_chord_from_filename (stem f) g = (c, g)" for g
    by (simp add: infer_chord_from_filename_def)
  from Cons.prems have rest: "list_all pattern_matched fs" by simp
  show ?case
    using Cons.IH[OF rest] by (simp add: i split: option.splits)
qed

text \<open>
  Claim C3 says that two runs on the same files and configuration give the same
  sample count and the same label histogram. The label of an IDMT file that matches
  no pattern is drawn from a random source the script never seeds: with the one file
  \<open>riff_01\<close>, a run whose draw is 0 counts one \<open>C\<close> and a run whose draw is 1 counts
  one \<open>D\<close>.
\<close>

theorem histogram_differs_between_runs:
  "chord_distribution (metadata (corpus_data (DatasetProcessor ''datasets'')
       (fst (collect_samples stub_librosa (DatasetProcessor ''datasets'') default_args
          (example_env ''datasets/idmt-guitar'' [example_file ''riff_01'' [0, 0, 0]] None)
          (sconst 0)))
       (example_env ''datasets/idmt-guitar'' [example_file ''riff_01'' [0, 0, 0]] None))) \<noteq>
   chord_distribution (metadata (corpus_data (DatasetProcessor ''datasets'')
       (fst (collect_samples stub_librosa (DatasetProcessor ''datasets'') default_args
          (example_env ''datasets/idmt-guitar'' [example_file ''riff_01'' [0, 0, 0]] None)
          (sconst 1)))
       (example_env ''datasets/idmt-guitar'' [example_file ''riff_01'' [0, 0, 0]] None)))"
proof -
  have a: "map chord (fst (collect_samples stub_librosa (DatasetProcessor ''datasets'')
          default_args
          (example_env ''datasets/idmt-guitar'' [example_file ''riff_01'' [0, 0, 0]] None)
          (sconst 0))) = [''C'']"
    by (simp add: run_eval infer_eval)
  have b: "map chord (fst (collect_samples stub_librosa (DatasetProcessor ''datasets'')
          default_args
          (example_env ''datasets/idmt-guitar'' [example_file ''riff_01'' [0, 0, 0]] None)
          (sconst 1))) = [''D'']"
    by (simp add: run_eval infer_eval)
  show ?thesis
    unfolding corpus_data_def Let_def a b
    by simp
qed

text \<open>
  Claim C3 as the code has it: two runs that find the same files (whatever their
  clocks, write faults and random draws) record the same \<open>total_samples\<close>; and when
  every file of the IDMT directory matches a pattern of the table, or the IDMT
  adapter is not selected, they record the same label histogram.
\<close>

theorem reruns_agree_on_count_and_matched_histogram:
  assumes same: "wav_files env1 = wav_files env2"
  shows "total_samples (metadata (corpus_data self (fst (collect_samples L self a env1 g1)) env1)) =
         total_samples (metadata (corpus_data self (fst (collect_samples L self a env2 g2)) env2)) \<and>
         ((''idmt-guitar'' \<in> set (datasets a) \<longrightarrow>
            (\<forall>fs. wav_files env1 (base_dir self @ ''/idmt-guitar'') = Some fs \<longrightarrow>
                  list_all pattern_matched fs)) \<longrightarrow>
          chord_distribution
            (metadata (corpus_data self (fst (collect_samples L self a env1 g1)) env1)) =
          chord_distribution
            (metadata (corpus_data self (fst (collect_samples L self a env2 g2)) env2)))"
proof (intro conjI impI)
  have g: "process_guitarset L self env1 = process_guitarset L self env2"
    by (simp add: process_guitarset_def same)
  have len: "length (fst (process_idmt_guitar L self env1 g1)) =
             length (fst (process_idmt_guitar L self env2 g2))"
    by (simp add: process_idmt_guitar_def same idmt_loop_length split: option.splits)
  show "total_samples (metadata (corpus_data self (fst (collect_samples L self a env1 g1)) env1)) =
        total_samples (metadata (corpus_data self (fst (collect_samples L self a env2 g2)) env2))"
    using g len by (simp add: corpus_data_def fst_collect_samples Let_def)
next
  assume m: "''idmt-guitar'' \<in> set (datasets a) \<longrightarrow>
            (\<forall>fs. wav_files env1 (base_dir self @ ''/idmt-guitar'') = Some fs \<longrightarrow>
                  list_all pattern_matched fs)"
  have g: "process_guitarset L self env1 = process_guitarset L self env2"
    by (simp add: process_guitarset_def same)
  have "fst (process_idmt_guitar L self env1 g1) = fst (process_idmt_guitar L self env2 g2)"
    if "''idmt-guitar'' \<in> set (datasets a)"
  proof (cases "wav_files env1 (base_dir self @ ''/idmt-guitar'')")
    case None
    with same show ?thesis by (simp add: process_idmt_guitar_def)
  next
    case (Some fs)
    with m that have "list_all pattern_matched fs" by simp
    from idmt_loop_matched[OF this] Some same show ?thesis
      by (simp add: process_idmt_guitar_def)
  qed
  with g have "fst (collect_samples L self a env1 g1) = fst (collect_samples L self a env2 g2)"
    by (simp add: fst_collect_samples)
  then show "chord_distribution
            (metadata (corpus_data self (fst (collect_samples L self a env1 g1)) env1)) =
          chord_distribution
            (metadata (corpus_data self (fst (collect_samples L self a env2 g2)) env2))"
    by (simp add: corpus_data_def Let_def)
qed

theorem reruns_agree_on_count_and_matched_histogram_witness:
  "list_all pattern_matched [example_file ''Em_take1'' [0, 0, 0]] \<and>
   chord_distribution (metadata (corpus_data (DatasetProcessor ''datasets'')
       (fst (collect_samples stub_librosa (DatasetProcessor ''datasets'') default_args
          (example_env ''datasets/idmt-guitar'' [example_file ''Em_take1'' [0, 0, 0]] None)
          (sconst 0)))
       (example_env ''datasets/idmt-guitar'' [example_file ''Em_take1'' [0, 0, 0]] None))) =
   chord_distribution (metadata (corpus_data (DatasetProcessor ''datasets'')
       (fst (collect_samples stub_librosa (DatasetProcessor ''datasets'') default_args
          (example_env ''datasets/idmt-guitar'' [example_file ''Em_take1'' [0, 0, 0]] (Some 0))
          (sconst 1)))
       (example_env ''datasets/idmt-guitar'' [example_file ''Em_take1'' [0, 0, 0]] (Some 0)))) \<and>
   total_samples (metadata (corpus_data (DatasetProcessor ''datasets'')
       (fst (collect_samples stub_librosa (DatasetProcessor ''datasets'') default_args
          (example_env ''datasets/idmt-guitar'' [example_file ''Em_take1'' [0, 0, 0]] None)
          (sconst 0)))
       (example_env ''datasets/idmt-guitar'' [example_file ''Em_take1'' [0, 0, 0]] None))) =
   total_samples (metadata (corpus_data (DatasetProcessor ''datasets'')
       (fst (collect_samples stub_librosa (DatasetProcessor ''datasets'') default_args
          (example_env ''datasets/idmt-guitar'' [example_file ''Em_take1'' [0, 0, 0]] (Some 0))
          (sconst 1)))
       (example_env ''datasets/idmt-guitar'' [example_file ''Em_take1'' [0, 0, 0]] (Some 0))))"
proof -
  have m: "list_all pattern_matched [example_file ''Em_take1'' [0, 0, 0]]"
    by (simp add: pattern_matched_def example_file_def infer_eval)
  have same:
    "wav_files (example_env ''datasets/idmt-guitar'' [example_file ''Em_take1'' [0, 0, 0]] None) =
     wav_files (example_env ''datasets/idmt-guitar'' [example_file ''Em_take1'' [0, 0, 0]] (Some 0))"
    by (simp add: example_env_def)
  have d:
    "wav_files (example_env ''datasets/idmt-guitar'' [example_file ''Em_take1'' [0, 0, 0]] None)
      (base_dir (DatasetProcessor ''datasets'') @ ''/idmt-guitar'') =
      Some [example_file ''Em_take1'' [0, 0, 0]]"
    by (simp add: example_env_def DatasetProcessor_def)
  show ?thesis
    using reruns_agree_on_count_and_matched_histogram[OF same,
        of "DatasetProcessor ''datasets''" stub_librosa default_args "sconst 0" "sconst 1"] m d
    by simp
qed

end
